theory Spec2Isabelle
  imports Complex_Main "HOL-Library.Sublist" "HOL-Library.Multiset"
begin

section \<open>Numbers\<close>

text \<open>
  Python floats are modelled as real numbers: the arithmetic of the analytics helpers and of
  the budget simulator is read as exact arithmetic (no NaN, no infinities, no binary rounding).
  Python's built-in \<^verbatim>\<open>round(x, ndigits)\<close> rounds to the nearest multiple of
  \<open>10 ^ (- ndigits)\<close> and resolves ties to the even neighbour.
\<close>

definition py_round :: "real \<Rightarrow> nat \<Rightarrow> real" where
  "py_round x ndigits =
     (let s = 10 ^ ndigits;
          y = x * s;
          f = \<lfloor>y\<rfloor>;
          d = y - of_int f
      in of_int (if d < 1 / 2 then f
                 else if 1 / 2 < d then f + 1
                 else if even f then f else f + 1) / s)"

definition np_mean :: "real list \<Rightarrow> real" where
  "np_mean xs = sum_list xs / real (length xs)"

definition np_std :: "real list \<Rightarrow> real" where
  "np_std xs = sqrt (sum_list (map (\<lambda>x. (x - np_mean xs)\<^sup>2) xs) / real (length xs))"

section \<open>Anomaly detector (routes/ai\_insights.py)\<close>

datatype direction = High | Low

text \<open>
  The three message templates of \<^verbatim>\<open>analyze_campaign_spend_for_anomalies\<close>; the
  formatted numbers inside the f-strings are left out, the template identifies the branch.
\<close>

datatype message =
    Significantly_higher_spend
  | Significantly_lower_spend
  | Spend_dropped_significantly

record anomaly =
  a_campaign_name :: string
  a_platform :: string
  a_anomaly_date :: int
  a_value :: real
  a_mean :: real
  a_stddev :: real
  a_direction :: direction
  a_message :: message

definition analyze_campaign_spend_for_anomalies ::
  "real list \<Rightarrow> real \<Rightarrow> string \<Rightarrow> string \<Rightarrow> int \<Rightarrow> anomaly option" where
  "analyze_campaign_spend_for_anomalies daily_spends_list most_recent_day_spend campaign_name
       platform_name anomaly_check_date =
     (if length daily_spends_list < 7 then None
      else
        let mean_spend = np_mean daily_spends_list;
            std_dev_spend = np_std daily_spends_list;
            threshold_std_devs = 25 / 10;
            is_significant_drop =
              (10 < mean_spend \<and> most_recent_day_spend < mean_spend * (1 / 10));
            found =
              (if mean_spend * (5 / 100) < std_dev_spend \<or> mean_spend = 0 then
                 (if mean_spend + threshold_std_devs * std_dev_spend < most_recent_day_spend
                  then Some (High, Significantly_higher_spend)
                  else if most_recent_day_spend < mean_spend - threshold_std_devs * std_dev_spend
                  then Some (Low, Significantly_lower_spend)
                  else None)
               else if is_significant_drop then Some (Low, Spend_dropped_significantly)
               else None)
        in case found of
             None \<Rightarrow> None
           | Some (dir, msg) \<Rightarrow>
               Some \<lparr> a_campaign_name = campaign_name,
                      a_platform = platform_name,
                      a_anomaly_date = anomaly_check_date,
                      a_value = most_recent_day_spend,
                      a_mean = py_round mean_spend 2,
                      a_stddev = py_round std_dev_spend 2,
                      a_direction = dir,
                      a_message = msg \<rparr>)"

section \<open>Metric-change calculator and top movers (routes/ai\_insights.py)\<close>










section \<open>Budget simulator (routes/optimization.py)\<close>

text \<open>
  The request body as parsed JSON. Python's \<^verbatim>\<open>None\<close> is \<open>JNull\<close>; an object is
  the association list of its dictionary. Numbers are real;
  \<^verbatim>\<open>isinstance(x, (int, float))\<close> also accepts the booleans, which are Python
  integers 0 and 1. A body that is neither empty nor a dictionary has no \<^verbatim>\<open>get\<close>:
  the first field access raises.
\<close>

datatype json =
    JNull
  | JBool bool
  | JNum real
  | JStr string
  | JList "json list"
  | JObj "(string \<times> json) list"

fun falsy :: "json \<Rightarrow> bool" where
  "falsy JNull = True"
| "falsy (JBool b) = (\<not> b)"
| "falsy (JNum x) = (x = 0)"
| "falsy (JStr s) = (s = [])"
| "falsy (JList xs) = (xs = [])"
| "falsy (JObj kvs) = (kvs = [])"

fun number_value :: "json \<Rightarrow> real option" where
  "number_value (JNum x) = Some x"
| "number_value (JBool b) = Some (if b then 1 else 0)"
| "number_value _ = None"

definition dict_get :: "(string \<times> json) list \<Rightarrow> string \<Rightarrow> json" where
  "dict_get kvs k = (case map_of kvs k of None \<Rightarrow> JNull | Some v \<Rightarrow> v)"

definition positive_number :: "json \<Rightarrow> bool" where
  "positive_number b = (case number_value b of None \<Rightarrow> False | Some v \<Rightarrow> 0 < v)"

record scenario =
  budget :: real
  projected_clicks :: real
  projected_spend :: real
  projected_conversions :: real
  projected_cpa :: real

datatype response =
    Error400 string
  | Ok200 "scenario list" string
  | Unhandled_AttributeError

definition assumptions :: string where
  "assumptions = ''Projections assume Cost Per Click (CPC) and Click-based Conversion Rate (CVR) remain constant at the provided values. Actual results may vary.''"

text \<open>The body of the loop over the budget scenarios.\<close>

definition simulate_scenario :: "real \<Rightarrow> real \<Rightarrow> real \<Rightarrow> scenario" where
  "simulate_scenario current_cpc current_cvr_clicks budget_in =
     (let projected_clicks_raw = budget_in / current_cpc;
          projected_conversions_raw = projected_clicks_raw * current_cvr_clicks;
          projected_spend_raw = budget_in;
          projected_cpa_raw =
            (if 0 < projected_conversions_raw then budget_in / projected_conversions_raw else 0)
      in \<lparr> budget = py_round budget_in 2,
           projected_clicks = py_round projected_clicks_raw 0,
           projected_spend = py_round projected_spend_raw 2,
           projected_conversions = py_round projected_conversions_raw 2,
           projected_cpa = py_round projected_cpa_raw 2 \<rparr>)"

definition budget_simulator_api :: "json option \<Rightarrow> response" where
  "budget_simulator_api request_json =
     (case request_json of
        None \<Rightarrow> Error400 ''Missing JSON payload.''
      | Some data \<Rightarrow>
          if falsy data then Error400 ''Missing JSON payload.''
          else (case data of
            JObj kvs \<Rightarrow>
              (let current_cpc = dict_get kvs ''current_cpc'';
                   current_cvr_clicks = dict_get kvs ''current_cvr_clicks'';
                   budget_scenarios_input = dict_get kvs ''budget_scenarios''
               in if current_cpc = JNull \<or> current_cvr_clicks = JNull
                  then Error400 ''current_cpc and current_cvr_clicks are required.''
                  else (case (number_value current_cpc, number_value current_cvr_clicks) of
                    (Some cpc, Some cvr) \<Rightarrow>
                      (case budget_scenarios_input of
                         JList bs \<Rightarrow>
                           if bs = []
                           then Error400 ''budget_scenarios must be a non-empty list of positive numbers.''
                           else if \<not> list_all positive_number bs
                           then Error400 ''All budget scenarios must be positive numbers.''
                           else if cpc \<le> 0
                           then Error400 ''Current CPC must be greater than zero.''
                           else if \<not> (0 \<le> cvr \<and> cvr \<le> 1)
                           then Error400 ''Current CVR (Click-based) must be between 0 (0%) and 1 (100%).''
                           else Ok200 (map (\<lambda>b. simulate_scenario cpc cvr (the (number_value b))) bs)
                                      assumptions
                       | _ \<Rightarrow> Error400 ''budget_scenarios must be a non-empty list of positive numbers.'')
                  | _ \<Rightarrow> Error400 ''CPC and CVR must be numbers.''))
          | _ \<Rightarrow> Unhandled_AttributeError))"

section \<open>Fetch window (routes/integration.py)\<close>

text \<open>
  Calendar dates are day numbers (\<^verbatim>\<open>date.toordinal()\<close>), so
  \<^verbatim>\<open>d - timedelta(days=7)\<close> is \<open>d - 7\<close>. Both fetchers compute the pair
  (start, end) from today's date and submit it to the vendor: Google Ads in
  \<^verbatim>\<open>WHERE segments.date BETWEEN start AND end\<close>, Meta Ads as
  \<^verbatim>\<open>time_range = {'since': start, 'until': end}\<close>. Both vendor forms include the two
  end points.
\<close>

definition google_ads_date_range :: "int \<Rightarrow> int \<times> int" where
  "google_ads_date_range today =
     (let end_date = today; start_date = today - 7 in (start_date, end_date))"

definition meta_ads_date_range :: "int \<Rightarrow> int \<times> int" where
  "meta_ads_date_range utc_today =
     (let end_date_dt = utc_today; start_date_dt = end_date_dt - 7
      in (start_date_dt, end_date_dt))"

definition queried_days :: "int \<times> int \<Rightarrow> int list" where
  "queried_days window = [fst window .. snd window]"

section \<open>Breakdown normalizer (routes/integration.py)\<close>

text \<open>
  The three enumerations are those of the Google Ads client library, which is not part of the
  repository; only the members the source compares against are distinguished by it.
\<close>

datatype Device =
    DEVICE_UNSPECIFIED | DEVICE_UNKNOWN | MOBILE | TABLET | DESKTOP | CONNECTED_TV | OTHER

datatype AgeRangeType =
    AGE_RANGE_UNSPECIFIED | AGE_RANGE_UNKNOWN
  | AGE_RANGE_18_24 | AGE_RANGE_25_34 | AGE_RANGE_35_44 | AGE_RANGE_45_54 | AGE_RANGE_55_64
  | AGE_RANGE_65_UP | AGE_RANGE_UNDETERMINED

datatype GenderType =
    GENDER_UNSPECIFIED | GENDER_UNKNOWN | MALE | FEMALE | UNDETERMINED



definition lower_char :: "char \<Rightarrow> char" where
  "lower_char c =
     (case map_of (zip ''ABCDEFGHIJKLMNOPQRSTUVWXYZ'' ''abcdefghijklmnopqrstuvwxyz'') c of
        None \<Rightarrow> c
      | Some l \<Rightarrow> l)"

definition lower :: "string \<Rightarrow> string" where
  "lower s = map lower_char s"






section \<open>Subscriptions and the Stripe webhook (models/user\_subscription.py, routes/billing.py)\<close>

datatype SubscriptionStatusEnum =
    ACTIVE | CANCELLED | PAST_DUE | TRIALING | INCOMPLETE | INCOMPLETE_EXPIRED | UNPAID

definition from_stripe_status :: "string \<Rightarrow> SubscriptionStatusEnum option" where
  "from_stripe_status stripe_status_str =
     map_of [(''active'', ACTIVE),
             (''trialing'', TRIALING),
             (''past_due'', PAST_DUE),
             (''canceled'', CANCELLED),
             (''unpaid'', UNPAID),
             (''incomplete'', INCOMPLETE),
             (''incomplete_expired'', INCOMPLETE_EXPIRED)]
       (lower stripe_status_str)"

text \<open>
  The tables the webhook reads and writes. Instants are seconds since the epoch, so
  \<^verbatim>\<open>datetime.utcfromtimestamp\<close> is the identity. Primary keys of subscriptions and the
  two bookkeeping timestamps are left out; user ids are the strings Stripe echoes back in
  \<^verbatim>\<open>client_reference_id\<close>.
\<close>

record user =
  u_id :: string
  u_stripe_customer_id :: "string option"

record subscription_plan =
  sp_id :: nat
  sp_name :: string
  sp_stripe_price_id :: "string option"

record user_subscription =
  us_user_id :: string
  us_plan_id :: nat
  us_start_date :: int
  us_end_date :: "int option"
  us_status :: SubscriptionStatusEnum
  us_stripe_subscription_id :: "string option"

record billing_db =
  users :: "user list"
  plans :: "subscription_plan list"
  subscriptions :: "user_subscription list"

text \<open>
  The attributes of the mapped class \<^verbatim>\<open>UserSubscription\<close>: its columns, its relationship
  \<^verbatim>\<open>plan\<close> and the back reference \<^verbatim>\<open>user\<close> declared on \<^verbatim>\<open>User.subscriptions\<close>.
  The declarative constructor of the ORM (an external library) sets one attribute per keyword
  argument and raises \<^verbatim>\<open>TypeError\<close> for a keyword that is not an attribute of the class.
\<close>

definition user_subscription_attributes :: "string list" where
  "user_subscription_attributes =
     [''id'', ''user_id'', ''plan_id'', ''start_date'', ''end_date'', ''status'',
      ''stripe_subscription_id'', ''created_at'', ''updated_at'', ''plan'', ''user'']"

definition constructor_accepts :: "string list \<Rightarrow> bool" where
  "constructor_accepts kwargs = list_all (\<lambda>k. k \<in> set user_subscription_attributes) kwargs"

text \<open>
  A response is the pair of body and status the view returns; an exception that no handler of
  the view catches ends the request with status 500 and discards the session's pending changes.
\<close>

datatype py_exception = TypeError | AttributeError

datatype webhook_response =
    Response string nat
  | Unhandled py_exception

text \<open>The object \<^verbatim>\<open>q.first()\<close> returns is changed in place; committing stores it.\<close>

fun update_first :: "('a \<Rightarrow> bool) \<Rightarrow> ('a \<Rightarrow> 'a) \<Rightarrow> 'a list \<Rightarrow> 'a list" where
  "update_first P f [] = []"
| "update_first P f (x # xs) = (if P x then f x # xs else x # update_first P f xs)"

subsection \<open>checkout.session.completed\<close>

record checkout_session =
  cs_id :: string
  cs_client_reference_id :: "string option"
  cs_subscription :: "string option"
  cs_customer :: "string option"

text \<open>
  What the two calls to the Stripe API answer while the event is processed, and the clock.
  \<^verbatim>\<open>stripe.checkout.Session.retrieve\<close> raises, or has no line items, or gives the price id
  of the first line item; \<^verbatim>\<open>stripe.Subscription.retrieve\<close> raises a Stripe error or gives
  the subscription's current period end, start date and optional trial end.
\<close>

datatype line_items_result = Retrieve_raises | No_line_items | First_price string

datatype subscription_result = Stripe_error | Subscription_data int int "int option"

record stripe_api =
  session_line_items :: line_items_result
  subscription_retrieve :: subscription_result
  utcnow :: int

definition falsy_str :: "string option \<Rightarrow> bool" where
  "falsy_str s = (case s of None \<Rightarrow> True | Some v \<Rightarrow> v = [])"

definition checkout_session_completed ::
  "stripe_api \<Rightarrow> checkout_session \<Rightarrow> billing_db \<Rightarrow> webhook_response \<times> billing_db" where
  "checkout_session_completed api session db =
     (if falsy_str (cs_client_reference_id session) \<or> falsy_str (cs_subscription session)
         \<or> falsy_str (cs_customer session)
      then (Response ''Missing essential IDs in session'' 400, db)
      else
        let user_id = the (cs_client_reference_id session);
            stripe_subscription_id = the (cs_subscription session);
            stripe_customer_id = the (cs_customer session)
        in case find (\<lambda>u. u_id u = user_id) (users db) of
             None \<Rightarrow> (Response (''User '' @ user_id @ '' not found'') 404, db)
           | Some usr \<Rightarrow>
               let user_modified =
                     (falsy_str (u_stripe_customer_id usr)
                      \<or> u_stripe_customer_id usr \<noteq> Some stripe_customer_id);
                   users_pending =
                     (if user_modified
                      then update_first (\<lambda>u. u_id u = user_id)
                             (\<lambda>u. u\<lparr>u_stripe_customer_id := Some stripe_customer_id\<rparr>) (users db)
                      else users db)
               in case find (\<lambda>s. us_stripe_subscription_id s = Some stripe_subscription_id)
                         (subscriptions db) of
                    Some existing_sub_check \<Rightarrow>
                      (Response ''Acknowledged: Subscription already processed'' 200,
                       db\<lparr>users := users_pending\<rparr>)
                  | None \<Rightarrow>
                      (case session_line_items api of
                         Retrieve_raises \<Rightarrow>
                           (Response ''Could not determine stripe_price_id from session'' 400, db)
                       | No_line_items \<Rightarrow> (Response ''No line items in session'' 400, db)
                       | First_price stripe_price_id \<Rightarrow>
                           (case find (\<lambda>p. sp_stripe_price_id p = Some stripe_price_id) (plans db) of
                              None \<Rightarrow>
                                (Response (''SubscriptionPlan with stripe_price_id ''
                                             @ stripe_price_id @ '' not found'') 404, db)
                            | Some subscription_plan \<Rightarrow>
                                let subscriptions_pending =
                                      map (\<lambda>old_sub.
                                             if us_user_id old_sub = u_id usr
                                                \<and> (case us_stripe_subscription_id old_sub of
                                                      None \<Rightarrow> False
                                                    | Some i \<Rightarrow> i \<noteq> stripe_subscription_id)
                                                \<and> us_status old_sub \<in> {ACTIVE, TRIALING, PAST_DUE}
                                             then old_sub\<lparr>us_status := CANCELLED\<rparr>
                                             else old_sub)
                                        (subscriptions db)
                                in case subscription_retrieve api of
                                     Stripe_error \<Rightarrow>
                                       (Response ''Failed to retrieve subscription details from Stripe'' 500,
                                        db)
                                   | Subscription_data current_period_end start_date trial_end \<Rightarrow>
                                       let trialing =
                                             (case trial_end of
                                                None \<Rightarrow> False
                                              | Some trial_end_dt \<Rightarrow>
                                                  trial_end_dt \<noteq> 0 \<and> utcnow api < trial_end_dt);
                                           new_subscription_status =
                                             (if trialing then TRIALING else ACTIVE);
                                           subscription_effective_end_date =
                                             (if trialing then the trial_end else current_period_end)
                                       in if \<not> constructor_accepts
                                                 [''user_id'', ''plan_id'', ''stripe_subscription_id'',
                                                  ''status'', ''start_date'', ''end_date'',
                                                  ''stripe_customer_id'']
                                          then (Unhandled TypeError, db)
                                          else
                                            (Response ''Success'' 200,
                                             db\<lparr>users := users_pending,
                                                subscriptions :=
                                                  subscriptions_pending @
                                                  [\<lparr> us_user_id = u_id usr,
                                                      us_plan_id = sp_id subscription_plan,
                                                      us_start_date = start_date,
                                                      us_end_date = Some subscription_effective_end_date,
                                                      us_status = new_subscription_status,
                                                      us_stripe_subscription_id =
                                                        Some stripe_subscription_id \<rparr>]\<rparr>))))"

text \<open>Stripe redelivers an event until it is acknowledged: the same session, processed again.\<close>

fun replay_checkout ::
  "stripe_api list \<Rightarrow> checkout_session \<Rightarrow> billing_db \<Rightarrow> billing_db" where
  "replay_checkout [] session db = db"
| "replay_checkout (api # apis) session db =
     replay_checkout apis session (snd (checkout_session_completed api session db))"

subsection \<open>customer.subscription.deleted and customer.subscription.updated\<close>

text \<open>
  The Stripe subscription object of the event. The source reads the price of the first item as
  \<^verbatim>\<open>subscription_data.items.data[0].price.id\<close> after testing
  \<^verbatim>\<open>subscription_data.get('items')\<close>: the entry is absent or empty, or the price is
  read, or (the Stripe object being a dictionary, whose own \<^verbatim>\<open>items\<close> method the
  attribute access can find first) the access raises \<^verbatim>\<open>AttributeError\<close>.
\<close>

datatype stripe_items = Items_absent | Items_first_price string | Items_attribute_error

record stripe_subscription_object =
  so_id :: string
  so_cancel_at_period_end :: "bool option"
  so_current_period_end :: "int option"
  so_items :: stripe_items
  so_status :: "string option"
  so_trial_end :: "int option"
  so_ended_at :: "int option"
  so_cancel_at :: "int option"

datatype cancel_event = Subscription_deleted | Subscription_updated_cancel_at_period_end

definition truthy_ts :: "int option \<Rightarrow> bool" where
  "truthy_ts ts = (case ts of None \<Rightarrow> False | Some t \<Rightarrow> t \<noteq> 0)"

definition customer_subscription_cancelled ::
  "cancel_event \<Rightarrow> stripe_subscription_object \<Rightarrow> billing_db \<Rightarrow> webhook_response \<times> billing_db" where
  "customer_subscription_cancelled ev subscription_data db =
     (let matches = (\<lambda>s. us_stripe_subscription_id s = Some (so_id subscription_data))
      in case find matches (subscriptions db) of
           None \<Rightarrow> (Response ''Success'' 200, db)
         | Some user_subscription \<Rightarrow>
             if us_status user_subscription = CANCELLED then (Response ''Success'' 200, db)
             else
               let effective_end_date_ts =
                     (case ev of
                        Subscription_deleted \<Rightarrow> so_ended_at subscription_data
                      | Subscription_updated_cancel_at_period_end \<Rightarrow> so_cancel_at subscription_data)
               in (Response ''Success'' 200,
                   db\<lparr>subscriptions :=
                        update_first matches
                          (\<lambda>s. (s\<lparr>us_status := CANCELLED\<rparr>)
                                  \<lparr>us_end_date :=
                                     (if truthy_ts effective_end_date_ts then effective_end_date_ts
                                      else us_end_date s)\<rparr>)
                          (subscriptions db)\<rparr>))"

definition customer_subscription_updated_general ::
  "stripe_subscription_object \<Rightarrow> billing_db \<Rightarrow> webhook_response \<times> billing_db" where
  "customer_subscription_updated_general subscription_data db =
     (let matches = (\<lambda>s. us_stripe_subscription_id s = Some (so_id subscription_data))
      in case find matches (subscriptions db) of
           None \<Rightarrow> (Response ''UserSubscription not found for update'' 200, db)
         | Some user_subscription \<Rightarrow>
            (case so_current_period_end subscription_data of
               None \<Rightarrow> (Unhandled TypeError, db)
             | Some new_period_end_dt \<Rightarrow>
                let s1 = user_subscription\<lparr>us_end_date := Some new_period_end_dt\<rparr>;
                    plan_step =
                      (case so_items subscription_data of
                         Items_absent \<Rightarrow> Inr s1
                       | Items_attribute_error \<Rightarrow> Inl AttributeError
                       | Items_first_price current_stripe_price_id \<Rightarrow>
                           (case find (\<lambda>p. sp_id p = us_plan_id s1) (plans db) of
                              None \<Rightarrow> Inl AttributeError
                            | Some plan \<Rightarrow>
                                if sp_stripe_price_id plan \<noteq> Some current_stripe_price_id then
                                  (case find (\<lambda>p. sp_stripe_price_id p = Some current_stripe_price_id)
                                          (plans db) of
                                     Some new_plan \<Rightarrow> Inr (s1\<lparr>us_plan_id := sp_id new_plan\<rparr>)
                                   | None \<Rightarrow> Inr s1)
                                else Inr s1))
                in case plan_step of
                     Inl e \<Rightarrow> (Unhandled e, db)
                   | Inr s2 \<Rightarrow>
                      (case so_status subscription_data of
                         None \<Rightarrow> (Unhandled AttributeError, db)
                       | Some stripe_status_str \<Rightarrow>
                          let new_local_status = from_stripe_status stripe_status_str;
                              s3 =
                                (case new_local_status of
                                   None \<Rightarrow> s2
                                 | Some new_status \<Rightarrow>
                                     if us_status s2 \<noteq> new_status then
                                       (if us_status s2 = CANCELLED \<and> new_status \<noteq> CANCELLED
                                        then s2
                                        else s2\<lparr>us_status := new_status\<rparr>)
                                     else s2);
                              new_trial_end_dt =
                                (if truthy_ts (so_trial_end subscription_data)
                                 then so_trial_end subscription_data else None);
                              s4 =
                                (if us_status s3 = TRIALING then
                                   (case new_trial_end_dt of
                                      Some t \<Rightarrow> s3\<lparr>us_end_date := Some t\<rparr>
                                    | None \<Rightarrow>
                                        (s3\<lparr>us_status := ACTIVE\<rparr>)
                                          \<lparr>us_end_date := Some new_period_end_dt\<rparr>)
                                 else s3)
                          in (Response ''Success'' 200,
                              db\<lparr>subscriptions :=
                                   update_first matches (\<lambda>_. s4) (subscriptions db)\<rparr>))))"

text \<open>
  The two branches of the view that a \<^verbatim>\<open>customer.subscription.updated\<close> event can take:
  the cancellation branch when \<^verbatim>\<open>cancel_at_period_end\<close> is \<^verbatim>\<open>True\<close>, the general
  branch when it is false or missing.
\<close>

definition customer_subscription_updated ::
  "stripe_subscription_object \<Rightarrow> billing_db \<Rightarrow> webhook_response \<times> billing_db" where
  "customer_subscription_updated subscription_data db =
     (if so_cancel_at_period_end subscription_data = Some True
      then customer_subscription_cancelled Subscription_updated_cancel_at_period_end
             subscription_data db
      else customer_subscription_updated_general subscription_data db)"

section \<open>Campaign facts and the metric upsert (models/campaign\_data.py, routes/integration.py)\<close>

datatype PlatformNameEnum = GOOGLE_ADS | META_ADS

text \<open>
  One row of the table \<^verbatim>\<open>campaign_data\<close>. Dates are day numbers and timestamps are
  seconds. The surrogate primary key is left out. The column \<^verbatim>\<open>spend\<close> is
  \<^verbatim>\<open>Numeric(10, 2)\<close> in the schema; the value is kept as the view computes it, the
  rounding a database applies on storing is not modelled.
\<close>

record campaign_data =
  integration_id :: nat
  platform :: PlatformNameEnum
  campaign_id_platform :: string
  campaign_name_platform :: string
  date :: int
  breakdown_type :: string
  breakdown_value :: string
  impressions :: int
  clicks :: int
  spend :: real
  conversions :: int
  created_at :: int
  updated_at :: int

text \<open>
  The six columns every \<^verbatim>\<open>CampaignData.query.filter_by(...)\<close> of the fetchers fixes:
  integration, platform, campaign, date, breakdown type and breakdown value.
\<close>

type_synonym fact_key = "nat \<times> PlatformNameEnum \<times> string \<times> int \<times> string \<times> string"

definition key_of :: "campaign_data \<Rightarrow> fact_key" where
  "key_of r =
     (integration_id r, platform r, campaign_id_platform r, date r, breakdown_type r,
      breakdown_value r)"

text \<open>
  The query-then-branch block that the fetchers repeat for every breakdown row and for the
  overall row: look the fact up with \<^verbatim>\<open>.first()\<close>; if it exists overwrite the campaign
  name, the four metrics and \<^verbatim>\<open>updated_at\<close>; otherwise add a new row (both timestamps
  default to the current time). The list is the session's view of the table.
\<close>

definition upsert ::
  "int \<Rightarrow> fact_key \<Rightarrow> string \<Rightarrow> int \<Rightarrow> int \<Rightarrow> real \<Rightarrow> int \<Rightarrow>
   campaign_data list \<Rightarrow> campaign_data list" where
  "upsert now key campaign_name impressions_val clicks_val spend_val conversions_val session =
     (case find (\<lambda>r. key_of r = key) session of
        Some existing_entry \<Rightarrow>
          update_first (\<lambda>r. key_of r = key)
            (\<lambda>e. e\<lparr> campaign_name_platform := campaign_name,
                     impressions := impressions_val,
                     clicks := clicks_val,
                     spend := spend_val,
                     conversions := conversions_val,
                     updated_at := now \<rparr>)
            session
      | None \<Rightarrow>
          (case key of (integ, plat, campaign_id, entry_date, b_type, b_value) \<Rightarrow>
             session @
             [\<lparr> integration_id = integ, platform = plat, campaign_id_platform = campaign_id,
                campaign_name_platform = campaign_name, date = entry_date,
                breakdown_type = b_type, breakdown_value = b_value,
                impressions = impressions_val, clicks = clicks_val, spend = spend_val,
                conversions = conversions_val, created_at = now, updated_at = now \<rparr>]))"

text \<open>The same call repeated, once per element of the list of clock readings.\<close>

fun upsert_times ::
  "int list \<Rightarrow> fact_key \<Rightarrow> string \<Rightarrow> int \<Rightarrow> int \<Rightarrow> real \<Rightarrow> int \<Rightarrow>
   campaign_data list \<Rightarrow> campaign_data list" where
  "upsert_times [] key n i c s v session = session"
| "upsert_times (t # ts) key n i c s v session =
     upsert_times ts key n i c s v (upsert t key n i c s v session)"

text \<open>A row with its update timestamp erased, to compare tables up to that column.\<close>

definition without_updated_at :: "campaign_data \<Rightarrow> campaign_data" where
  "without_updated_at r = r\<lparr> updated_at := 0 \<rparr>"

section \<open>Overall rollup (routes/integration.py)\<close>





section \<open>Google Ads fetcher (routes/integration.py)\<close>














section \<open>Meta Ads fetcher (routes/integration.py)\<close>











section \<open>The rollup invariant\<close>


section \<open>Write sequences\<close>











section \<open>Properties of the analytics helpers\<close>

subsection \<open>Anomaly detector on a constant baseline\<close>

lemma np_mean_seven_hundreds: "np_mean [100, 100, 100, 100, 100, 100, 100] = 100"
  by (simp add: np_mean_def)

lemma np_std_seven_hundreds: "np_std [100, 100, 100, 100, 100, 100, 100] = 0"
  by (simp add: np_std_def np_mean_seven_hundreds)

lemma py_round_int: "py_round (of_int k) n = of_int k"
proof -
  have "(of_int k :: real) * 10 ^ n = of_int (k * 10 ^ n)" by simp
  then have "\<lfloor>(of_int k :: real) * 10 ^ n\<rfloor> = k * 10 ^ n"
    by (metis floor_of_int)
  then show ?thesis by (simp add: py_round_def Let_def)
qed

text \<open>
  C3 as stated fails: on the baseline of seven values 100 and the recent value 10 the mean is
  100 and the standard deviation 0, so the standard-deviation branch is not taken, and the
  significant-drop test \<open>10 < 100 * 0.1\<close> is false because the comparison is strict. The
  detector returns no anomaly.
\<close>

theorem anomaly_recent_ten_is_none:
  "analyze_campaign_spend_for_anomalies [100, 100, 100, 100, 100, 100, 100] 10
     ''Campaign Drop'' ''MetaAds'' 19365 = None"
  by (simp add: analyze_campaign_spend_for_anomalies_def np_mean_seven_hundreds
      np_std_seven_hundreds Let_def)

text \<open>
  C3 (amended): on the baseline of seven values 100 the detector reports a low anomaly through
  the significant-drop branch exactly for the recent values strictly below 10 (the repository's
  own test uses 5); for a recent value of 10 or more it reports nothing.
\<close>

theorem anomaly_significant_drop_below_ten:
  fixes r :: real
  shows "(r < 10 \<longrightarrow>
            analyze_campaign_spend_for_anomalies [100, 100, 100, 100, 100, 100, 100] r n p d =
              Some \<lparr> a_campaign_name = n, a_platform = p, a_anomaly_date = d, a_value = r,
                     a_mean = 100, a_stddev = 0, a_direction = Low,
                     a_message = Spend_dropped_significantly \<rparr>)
       \<and> (10 \<le> r \<longrightarrow>
            analyze_campaign_spend_for_anomalies [100, 100, 100, 100, 100, 100, 100] r n p d = None)"
proof -
  have r100: "py_round 100 2 = 100" and r0: "py_round 0 2 = 0"
    using py_round_int [of 100 2] py_round_int [of 0 2] by simp_all
  show ?thesis
    by (simp add: analyze_campaign_spend_for_anomalies_def np_mean_seven_hundreds
        np_std_seven_hundreds Let_def r100 r0)
qed

theorem anomaly_significant_drop_below_ten_witness:
  "(5::real) < 10 \<and>
   analyze_campaign_spend_for_anomalies [100, 100, 100, 100, 100, 100, 100] 5
     ''Campaign Drop'' ''MetaAds'' 19365 =
     Some \<lparr> a_campaign_name = ''Campaign Drop'', a_platform = ''MetaAds'',
            a_anomaly_date = 19365, a_value = 5, a_mean = 100, a_stddev = 0,
            a_direction = Low, a_message = Spend_dropped_significantly \<rparr>"
  using anomaly_significant_drop_below_ten [of 5 "''Campaign Drop''" "''MetaAds''" 19365]
  by simp

subsection \<open>Budget simulator\<close>

text \<open>
  C8: the request with CPC 2.0, CVR 0.05 and the single budget 100 is answered with the scenario
  (clicks 50, conversions 2.5, spend 100, CPA 40); and every request whose CPC is a number that
  is not positive, or whose CVR is a number outside the interval from 0 to 1, or one of whose
  budget scenarios is not a positive number, is answered with status 400 and an error message,
  so no scenario is computed.
\<close>

theorem budget_simulator_contract:
  "budget_simulator_api
     (Some (JObj [(''current_cpc'', JNum 2), (''current_cvr_clicks'', JNum (5 / 100)),
                  (''budget_scenarios'', JList [JNum 100])])) =
     Ok200 [\<lparr> budget = 100, projected_clicks = 50, projected_spend = 100,
              projected_conversions = 25 / 10, projected_cpa = 40 \<rparr>] assumptions
   \<and> (\<forall>kvs.
        (\<exists>cpc. number_value (dict_get kvs ''current_cpc'') = Some cpc \<and> cpc \<le> 0)
        \<or> (\<exists>cvr. number_value (dict_get kvs ''current_cvr_clicks'') = Some cvr
                  \<and> (cvr < 0 \<or> 1 < cvr))
        \<or> (\<exists>bs. dict_get kvs ''budget_scenarios'' = JList bs
                 \<and> (\<exists>b \<in> set bs. \<not> positive_number b))
        \<longrightarrow> (\<exists>msg. budget_simulator_api (Some (JObj kvs)) = Error400 msg))"
proof (intro conjI allI impI)
  show "budget_simulator_api
     (Some (JObj [(''current_cpc'', JNum 2), (''current_cvr_clicks'', JNum (5 / 100)),
                  (''budget_scenarios'', JList [JNum 100])])) =
     Ok200 [\<lparr> budget = 100, projected_clicks = 50, projected_spend = 100,
              projected_conversions = 25 / 10, projected_cpa = 40 \<rparr>] assumptions"
    by (simp add: budget_simulator_api_def dict_get_def positive_number_def
        simulate_scenario_def py_round_def Let_def)
next
  fix kvs
  assume bad:
    "(\<exists>cpc. number_value (dict_get kvs ''current_cpc'') = Some cpc \<and> cpc \<le> 0)
     \<or> (\<exists>cvr. number_value (dict_get kvs ''current_cvr_clicks'') = Some cvr
               \<and> (cvr < 0 \<or> 1 < cvr))
     \<or> (\<exists>bs. dict_get kvs ''budget_scenarios'' = JList bs
              \<and> (\<exists>b \<in> set bs. \<not> positive_number b))"
  then show "\<exists>msg. budget_simulator_api (Some (JObj kvs)) = Error400 msg"
    by (auto simp: budget_simulator_api_def Let_def list_all_iff
        split: option.splits json.splits)
qed

theorem budget_simulator_contract_witness:
  "(\<exists>msg. budget_simulator_api
       (Some (JObj [(''current_cpc'', JNum 0), (''current_cvr_clicks'', JNum (5 / 100)),
                    (''budget_scenarios'', JList [JNum 100])])) = Error400 msg)
   \<and> (\<exists>msg. budget_simulator_api
       (Some (JObj [(''current_cpc'', JNum 2), (''current_cvr_clicks'', JNum (101 / 100)),
                    (''budget_scenarios'', JList [JNum 100])])) = Error400 msg)
   \<and> (\<exists>msg. budget_simulator_api
       (Some (JObj [(''current_cpc'', JNum 2), (''current_cvr_clicks'', JNum (5 / 100)),
                    (''budget_scenarios'', JList [JNum 100, JNum 0, JNum 200])])) = Error400 msg)"
proof -
  note all = budget_simulator_contract [THEN conjunct2, rule_format]
  have a: "\<exists>msg. budget_simulator_api
       (Some (JObj [(''current_cpc'', JNum 0), (''current_cvr_clicks'', JNum (5 / 100)),
                    (''budget_scenarios'', JList [JNum 100])])) = Error400 msg"
    by (rule all) (simp add: dict_get_def)
  have b: "\<exists>msg. budget_simulator_api
       (Some (JObj [(''current_cpc'', JNum 2), (''current_cvr_clicks'', JNum (101 / 100)),
                    (''budget_scenarios'', JList [JNum 100])])) = Error400 msg"
  proof (rule all)
    show "(\<exists>cpc. number_value (dict_get [(''current_cpc'', JNum 2),
                  (''current_cvr_clicks'', JNum (101 / 100)),
                  (''budget_scenarios'', JList [JNum 100])] ''current_cpc'') = Some cpc \<and> cpc \<le> 0)
        \<or> (\<exists>cvr. number_value (dict_get [(''current_cpc'', JNum 2),
                  (''current_cvr_clicks'', JNum (101 / 100)),
                  (''budget_scenarios'', JList [JNum 100])] ''current_cvr_clicks'') = Some cvr
                  \<and> (cvr < 0 \<or> 1 < cvr))
        \<or> (\<exists>bs. dict_get [(''current_cpc'', JNum 2),
                  (''current_cvr_clicks'', JNum (101 / 100)),
                  (''budget_scenarios'', JList [JNum 100])] ''budget_scenarios'' = JList bs
                 \<and> (\<exists>b \<in> set bs. \<not> positive_number b))"
      by (intro disjI2 [of _ "\<exists>cpc. _ cpc"] disjI1 [of "\<exists>cvr. _ cvr"] exI [of _ "101 / 100"])
        (simp add: dict_get_def)
  qed
  have c: "\<exists>msg. budget_simulator_api
       (Some (JObj [(''current_cpc'', JNum 2), (''current_cvr_clicks'', JNum (5 / 100)),
                    (''budget_scenarios'', JList [JNum 100, JNum 0, JNum 200])])) = Error400 msg"
    by (rule all) (simp add: dict_get_def positive_number_def)
  from a b c show ?thesis by blast
qed


subsection \<open>Metric changes and top movers\<close>






section \<open>Properties of the fetchers' parameters\<close>

subsection \<open>Fetch window\<close>

text \<open>
  C4 as stated fails: the window submitted to either vendor ends today, not yesterday, and it
  spans 8 calendar days. Shown for the day number 738000.
\<close>

theorem fetch_window_includes_today:
  "738000 \<in> set (queried_days (google_ads_date_range 738000))
   \<and> queried_days (google_ads_date_range 738000) \<noteq> [737993 .. 737999]
   \<and> length (queried_days (google_ads_date_range 738000)) = 8
   \<and> 738000 \<in> set (queried_days (meta_ads_date_range 738000))
   \<and> queried_days (meta_ads_date_range 738000) \<noteq> [737993 .. 737999]
   \<and> length (queried_days (meta_ads_date_range 738000)) = 8"
proof -
  have "(738000::int) \<notin> set [737993 .. 737999]" by simp
  moreover have "(738000::int) \<in> set [737993 .. 738000]" by simp
  ultimately have "[737993 .. 738000] \<noteq> [737993 .. (737999::int)]" by metis
  then show ?thesis
    by (simp add: queried_days_def google_ads_date_range_def meta_ads_date_range_def)
qed

text \<open>
  C4 (amended): for every fetch on either platform the date range submitted to the vendor
  starts 7 days before today and ends today; the days it covers are those from \<open>today - 7\<close>
  to \<open>today\<close>, today included.
\<close>

theorem fetch_window_range:
  "google_ads_date_range today = (today - 7, today)
   \<and> meta_ads_date_range today = (today - 7, today)
   \<and> set (queried_days (google_ads_date_range today)) = {today - 7 .. today}
   \<and> set (queried_days (meta_ads_date_range today)) = {today - 7 .. today}
   \<and> today \<in> set (queried_days (google_ads_date_range today))
   \<and> today \<in> set (queried_days (meta_ads_date_range today))"
  by (simp add: queried_days_def google_ads_date_range_def meta_ads_date_range_def)

subsection \<open>Breakdown normalizer\<close>






section \<open>Properties of the subscription state machine\<close>

lemma find_Some_holds: "find P xs = Some x \<Longrightarrow> P x \<and> x \<in> set xs"
  by (induction xs) (auto split: if_splits)

lemma map_update_first_same:
  assumes "find P xs = Some x" and "g (f x) = g x"
  shows "map g (update_first P f xs) = map g xs"
  using assms by (induction xs) (auto split: if_splits)

subsection \<open>A cancelled subscription stays cancelled\<close>

lemma general_update_keeps_cancelled:
  assumes found: "find (\<lambda>s. us_stripe_subscription_id s = Some (so_id p)) (subscriptions db) = Some us"
    and canc: "us_status us = CANCELLED"
  shows "map us_status (subscriptions (snd (customer_subscription_updated_general p db)))
           = map us_status (subscriptions db)
         \<and> map us_stripe_subscription_id
               (subscriptions (snd (customer_subscription_updated_general p db)))
           = map us_stripe_subscription_id (subscriptions db)"
proof -
  let ?m = "\<lambda>s. us_stripe_subscription_id s = Some (so_id p)"
  have keep: "\<And>s4. us_status s4 = CANCELLED \<Longrightarrow>
                 us_stripe_subscription_id s4 = us_stripe_subscription_id us \<Longrightarrow>
      map us_status (update_first ?m (\<lambda>_. s4) (subscriptions db)) = map us_status (subscriptions db)
      \<and> map us_stripe_subscription_id (update_first ?m (\<lambda>_. s4) (subscriptions db))
          = map us_stripe_subscription_id (subscriptions db)"
    using found canc by (simp add: map_update_first_same)
  show ?thesis
    using found canc keep
    by (auto simp: customer_subscription_updated_general_def Let_def
        split: option.splits stripe_items.splits sum.splits if_splits)
qed

lemma cancel_branch_keeps_cancelled:
  assumes found: "find (\<lambda>s. us_stripe_subscription_id s = Some (so_id p)) (subscriptions db) = Some us"
    and canc: "us_status us = CANCELLED"
  shows "snd (customer_subscription_cancelled ev p db) = db"
  using assms by (simp add: customer_subscription_cancelled_def Let_def)

lemma updated_without_row:
  assumes "find (\<lambda>s. us_stripe_subscription_id s = Some (so_id p)) (subscriptions db) = None"
  shows "snd (customer_subscription_updated p db) = db"
  using assms
  by (simp add: customer_subscription_updated_def customer_subscription_cancelled_def
      customer_subscription_updated_general_def Let_def)

text \<open>
  C7: when every local row of the provider subscription named by a
  \<^verbatim>\<open>customer.subscription.updated\<close> event is cancelled, processing the event (whatever
  status, plan, period or trial data its payload carries, and whichever of the two branches it
  takes) leaves every row's status and provider subscription id as they were; in particular
  the cancelled subscription is still there and still cancelled.
\<close>

theorem cancelled_subscription_stays_cancelled:
  assumes "\<forall>s \<in> set (subscriptions db).
             us_stripe_subscription_id s = Some (so_id p) \<longrightarrow> us_status s = CANCELLED"
  shows "map us_status (subscriptions (snd (customer_subscription_updated p db)))
           = map us_status (subscriptions db)
         \<and> map us_stripe_subscription_id (subscriptions (snd (customer_subscription_updated p db)))
           = map us_stripe_subscription_id (subscriptions db)
         \<and> (\<forall>s \<in> set (subscriptions (snd (customer_subscription_updated p db))).
               us_stripe_subscription_id s = Some (so_id p) \<longrightarrow> us_status s = CANCELLED)"
proof -
  let ?m = "\<lambda>s. us_stripe_subscription_id s = Some (so_id p)"
  let ?db' = "snd (customer_subscription_updated p db)"
  have maps: "map us_status (subscriptions ?db') = map us_status (subscriptions db)
              \<and> map us_stripe_subscription_id (subscriptions ?db')
                  = map us_stripe_subscription_id (subscriptions db)"
  proof (cases "find ?m (subscriptions db)")
    case None
    then show ?thesis by (simp add: updated_without_row)
  next
    case (Some us)
    then have "?m us \<and> us \<in> set (subscriptions db)" by (rule find_Some_holds)
    with assms have canc: "us_status us = CANCELLED" by blast
    show ?thesis
    proof (cases "so_cancel_at_period_end p = Some True")
      case True
      then show ?thesis
        using cancel_branch_keeps_cancelled [OF Some canc]
        by (simp add: customer_subscription_updated_def)
    next
      case False
      then show ?thesis
        using general_update_keeps_cancelled [OF Some canc]
        by (simp add: customer_subscription_updated_def)
    qed
  qed
  have "\<forall>s \<in> set (subscriptions ?db').
          us_stripe_subscription_id s = Some (so_id p) \<longrightarrow> us_status s = CANCELLED"
  proof (intro ballI impI)
    fix s
    assume s: "s \<in> set (subscriptions ?db')" and sid: "us_stripe_subscription_id s = Some (so_id p)"
    from s obtain i where i: "i < length (subscriptions ?db')" "subscriptions ?db' ! i = s"
      by (auto simp: in_set_conv_nth)
    from maps have len: "length (subscriptions ?db') = length (subscriptions db)"
      by (metis length_map)
    from maps i len have "us_status (subscriptions db ! i) = us_status s"
      and "us_stripe_subscription_id (subscriptions db ! i) = us_stripe_subscription_id s"
      by (metis nth_map)+
    moreover have "subscriptions db ! i \<in> set (subscriptions db)"
      using i len by simp
    ultimately show "us_status s = CANCELLED"
      using assms sid by metis
  qed
  with maps show ?thesis by blast
qed

theorem cancelled_subscription_stays_cancelled_witness:
  "map us_status (subscriptions (snd (customer_subscription_updated
      \<lparr> so_id = ''sub_1'', so_cancel_at_period_end = Some False,
        so_current_period_end = Some 1700000000, so_items = Items_absent,
        so_status = Some ''active'', so_trial_end = None, so_ended_at = None,
        so_cancel_at = None \<rparr>
      \<lparr> users = [\<lparr> u_id = ''7'', u_stripe_customer_id = Some ''cus_1'' \<rparr>],
        plans = [\<lparr> sp_id = 1, sp_name = ''Pro'', sp_stripe_price_id = Some ''price_pro'' \<rparr>],
        subscriptions =
          [\<lparr> us_user_id = ''7'', us_plan_id = 1, us_start_date = 1600000000,
             us_end_date = Some 1650000000, us_status = CANCELLED,
             us_stripe_subscription_id = Some ''sub_1'' \<rparr>] \<rparr>)))
   = [CANCELLED]
   \<and> from_stripe_status ''active'' = Some ACTIVE"
proof -
  let ?p = "\<lparr> so_id = ''sub_1'', so_cancel_at_period_end = Some False,
        so_current_period_end = Some 1700000000, so_items = Items_absent,
        so_status = Some ''active'', so_trial_end = None, so_ended_at = None,
        so_cancel_at = None \<rparr>"
  let ?db = "\<lparr> users = [\<lparr> u_id = ''7'', u_stripe_customer_id = Some ''cus_1'' \<rparr>],
        plans = [\<lparr> sp_id = 1, sp_name = ''Pro'', sp_stripe_price_id = Some ''price_pro'' \<rparr>],
        subscriptions =
          [\<lparr> us_user_id = ''7'', us_plan_id = 1, us_start_date = 1600000000,
             us_end_date = Some 1650000000, us_status = CANCELLED,
             us_stripe_subscription_id = Some ''sub_1'' \<rparr>] \<rparr>"
  have hyp: "\<forall>s \<in> set (subscriptions ?db).
             us_stripe_subscription_id s = Some (so_id ?p) \<longrightarrow> us_status s = CANCELLED"
    by simp
  have st: "from_stripe_status ''active'' = Some ACTIVE"
    by (simp add: from_stripe_status_def lower_def lower_char_def)
  from cancelled_subscription_stays_cancelled [OF hyp]
  have "map us_status (subscriptions (snd (customer_subscription_updated ?p ?db)))
          = map us_status (subscriptions ?db)"
    by blast
  with st show ?thesis by simp
qed

subsection \<open>Replaying checkout.session.completed\<close>

lemma constructor_rejects_stripe_customer_id:
  "\<not> constructor_accepts
        [''user_id'', ''plan_id'', ''stripe_subscription_id'', ''status'', ''start_date'',
         ''end_date'', ''stripe_customer_id'']"
  by (simp add: constructor_accepts_def user_subscription_attributes_def)

lemma checkout_keeps_subscriptions:
  "subscriptions (snd (checkout_session_completed api session db)) = subscriptions db"
  by (simp add: checkout_session_completed_def Let_def constructor_rejects_stripe_customer_id
      split: option.splits line_items_result.splits subscription_result.splits)

lemma replay_checkout_keeps_subscriptions:
  "subscriptions (replay_checkout apis session db) = subscriptions db"
  by (induction apis arbitrary: db) (simp_all add: checkout_keeps_subscriptions)

text \<open>
  C6 on the code: a well-formed \<^verbatim>\<open>checkout.session.completed\<close> event for an existing
  user and an existing plan, on a database without subscriptions. The view passes the keyword
  \<^verbatim>\<open>stripe_customer_id\<close> to the constructor of \<^verbatim>\<open>UserSubscription\<close>, which has no
  such attribute, so the request ends in a \<^verbatim>\<open>TypeError\<close> before anything is added.
  After the event and its replay there is no row for the provider subscription id, where the
  claim expects exactly one; indeed no delivery of the event, on any database, changes the
  table of subscriptions.
\<close>

theorem checkout_replay_creates_no_row:
  "(\<forall>apis session db. subscriptions (replay_checkout apis session db) = subscriptions db)
   \<and> checkout_session_completed
     \<lparr> session_line_items = First_price ''price_pro'',
       subscription_retrieve = Subscription_data 1700000000 1690000000 None,
       utcnow = 1690000100 \<rparr>
     \<lparr> cs_id = ''cs_test_1'', cs_client_reference_id = Some ''7'',
       cs_subscription = Some ''sub_123'', cs_customer = Some ''cus_1'' \<rparr>
     \<lparr> users = [\<lparr> u_id = ''7'', u_stripe_customer_id = None \<rparr>],
       plans = [\<lparr> sp_id = 1, sp_name = ''Pro'', sp_stripe_price_id = Some ''price_pro'' \<rparr>],
       subscriptions = [] \<rparr>
   = (Unhandled TypeError,
      \<lparr> users = [\<lparr> u_id = ''7'', u_stripe_customer_id = None \<rparr>],
        plans = [\<lparr> sp_id = 1, sp_name = ''Pro'', sp_stripe_price_id = Some ''price_pro'' \<rparr>],
        subscriptions = [] \<rparr>)
   \<and> length (filter (\<lambda>s. us_stripe_subscription_id s = Some ''sub_123'')
        (subscriptions (replay_checkout
           [\<lparr> session_line_items = First_price ''price_pro'',
              subscription_retrieve = Subscription_data 1700000000 1690000000 None,
              utcnow = 1690000100 \<rparr>,
            \<lparr> session_line_items = First_price ''price_pro'',
              subscription_retrieve = Subscription_data 1700000000 1690000000 None,
              utcnow = 1690000200 \<rparr>]
           \<lparr> cs_id = ''cs_test_1'', cs_client_reference_id = Some ''7'',
             cs_subscription = Some ''sub_123'', cs_customer = Some ''cus_1'' \<rparr>
           \<lparr> users = [\<lparr> u_id = ''7'', u_stripe_customer_id = None \<rparr>],
             plans = [\<lparr> sp_id = 1, sp_name = ''Pro'', sp_stripe_price_id = Some ''price_pro'' \<rparr>],
             subscriptions = [] \<rparr>))) = 0"
  by (simp add: checkout_session_completed_def Let_def falsy_str_def
      constructor_rejects_stripe_customer_id replay_checkout_keeps_subscriptions)

section \<open>Properties of the metric upsert\<close>

lemma key_of_overwrite:
  "key_of (e\<lparr> campaign_name_platform := n, impressions := i, clicks := c, spend := s,
               conversions := v, updated_at := t \<rparr>) = key_of e"
  by (simp add: key_of_def)

lemma upsert_Nil:
  "upsert now (integ, plat, camp, d, bt, bv) n i c s v [] =
     [\<lparr> integration_id = integ, platform = plat, campaign_id_platform = camp,
        campaign_name_platform = n, date = d, breakdown_type = bt, breakdown_value = bv,
        impressions = i, clicks = c, spend = s, conversions = v, created_at = now,
        updated_at = now \<rparr>]"
  by (simp add: upsert_def)

lemma upsert_Cons:
  "upsert now k n i c s v (r # rs) =
     (if key_of r = k
      then r\<lparr> campaign_name_platform := n, impressions := i, clicks := c, spend := s,
               conversions := v, updated_at := now \<rparr> # rs
      else r # upsert now k n i c s v rs)"
  by (simp add: upsert_def split: option.splits prod.splits)

lemma keys_upsert:
  "map key_of (upsert now k n i c s v store) =
     (if k \<in> set (map key_of store) then map key_of store else map key_of store @ [k])"
proof (induction store)
  case Nil
  obtain integ plat camp d bt bv where k: "k = (integ, plat, camp, d, bt, bv)"
    by (cases k) auto
  show ?case unfolding k by (simp add: upsert_Nil key_of_def)
next
  case (Cons r rs)
  then show ?case
    by (auto simp: upsert_Cons key_of_overwrite)
qed

lemma distinct_keys_upsert:
  assumes "distinct (map key_of store)"
  shows "distinct (map key_of (upsert now k n i c s v store))"
  using assms by (simp add: keys_upsert)

lemma upsert_frame:
  assumes "\<not> Q k"
  shows "filter (\<lambda>r. Q (key_of r)) (upsert now k n i c s v store) = filter (\<lambda>r. Q (key_of r)) store"
proof (induction store)
  case Nil
  obtain integ plat camp d bt bv where k: "k = (integ, plat, camp, d, bt, bv)"
    by (cases k) auto
  show ?case using assms unfolding k by (simp add: upsert_Nil key_of_def)
next
  case (Cons r rs)
  then show ?case
    using assms by (auto simp: upsert_Cons key_of_overwrite)
qed

lemma upsert_own_key:
  assumes "distinct (map key_of store)"
  shows "\<exists>row. filter (\<lambda>r. key_of r = k) (upsert now k n i c s v store) = [row]
               \<and> key_of row = k \<and> campaign_name_platform row = n \<and> impressions row = i
               \<and> clicks row = c \<and> spend row = s \<and> conversions row = v
               \<and> updated_at row = now"
  using assms
proof (induction store)
  case Nil
  obtain integ plat camp d bt bv where k: "k = (integ, plat, camp, d, bt, bv)"
    by (cases k) auto
  show ?case unfolding k by (simp add: upsert_Nil key_of_def)
next
  case (Cons r rs)
  show ?case
  proof (cases "key_of r = k")
    case True
    with Cons.prems have "k \<notin> set (map key_of rs)" by auto
    then have "filter (\<lambda>r. key_of r = k) rs = []"
      by (auto simp: filter_empty_conv)
    with True show ?thesis
      by (simp add: upsert_Cons key_of_overwrite)
  next
    case False
    with Cons show ?thesis
      by (simp add: upsert_Cons)
  qed
qed

subsection \<open>Idempotence\<close>

lemma upsert_stores_values:
  "\<exists>e. find (\<lambda>r. key_of r = k) (upsert now k n i c s v store) = Some e
       \<and> campaign_name_platform e = n \<and> impressions e = i \<and> clicks e = c \<and> spend e = s
       \<and> conversions e = v"
proof (induction store)
  case Nil
  obtain integ plat camp d bt bv where k: "k = (integ, plat, camp, d, bt, bv)"
    by (cases k) auto
  show ?case unfolding k by (simp add: upsert_Nil key_of_def)
next
  case (Cons r rs)
  then show ?case
    by (auto simp: upsert_Cons key_of_overwrite)
qed

lemma upsert_again:
  assumes "find (\<lambda>r. key_of r = k) store = Some e"
    and "campaign_name_platform e = n" "impressions e = i" "clicks e = c" "spend e = s"
    and "conversions e = v"
  shows "map without_updated_at (upsert now k n i c s v store) = map without_updated_at store"
  using assms
proof (induction store)
  case Nil
  then show ?case by simp
next
  case (Cons r rs)
  show ?case
  proof (cases "key_of r = k")
    case True
    with Cons.prems have "e = r" by simp
    with Cons.prems True show ?thesis
      by (simp add: upsert_Cons without_updated_at_def)
  next
    case False
    with Cons show ?thesis
      by (simp add: upsert_Cons)
  qed
qed

lemma upsert_times_again:
  assumes "find (\<lambda>r. key_of r = k) store = Some e"
    and "campaign_name_platform e = n" "impressions e = i" "clicks e = c" "spend e = s"
    and "conversions e = v"
  shows "map without_updated_at (upsert_times ts k n i c s v store) = map without_updated_at store"
  using assms
proof (induction ts arbitrary: store e)
  case Nil
  then show ?case by simp
next
  case (Cons t ts)
  obtain e' where e': "find (\<lambda>r. key_of r = k) (upsert t k n i c s v store) = Some e'"
    "campaign_name_platform e' = n" "impressions e' = i" "clicks e' = c" "spend e' = s"
    "conversions e' = v"
    using upsert_stores_values [of k t n i c s v store] by blast
  have "map without_updated_at (upsert_times ts k n i c s v (upsert t k n i c s v store))
          = map without_updated_at (upsert t k n i c s v store)"
    using e' by (rule Cons.IH)
  also have "\<dots> = map without_updated_at store"
    using Cons.prems by (rule upsert_again)
  finally show ?case by simp
qed

lemma upsert_times_snoc:
  "upsert_times (ts @ [t]) k n i c s v store = upsert t k n i c s v (upsert_times ts k n i c s v store)"
  by (induction ts arbitrary: store) simp_all

lemma distinct_keys_upsert_times:
  assumes "distinct (map key_of store)"
  shows "distinct (map key_of (upsert_times ts k n i c s v store))"
  using assms by (induction ts arbitrary: store) (simp_all add: distinct_keys_upsert)

lemma upsert_times_frame:
  assumes "\<not> Q k"
  shows "filter (\<lambda>r. Q (key_of r)) (upsert_times ts k n i c s v store)
           = filter (\<lambda>r. Q (key_of r)) store"
  using assms by (induction ts arbitrary: store) (simp_all add: upsert_frame)

lemma upsert_same_clock:
  "upsert t k n i c s v (upsert t k n i c s v store) = upsert t k n i c s v store"
proof (induction store)
  case Nil
  obtain integ plat camp d bt bv where k: "k = (integ, plat, camp, d, bt, bv)"
    by (cases k) auto
  show ?case unfolding k by (simp add: upsert_Nil upsert_Cons key_of_def)
next
  case (Cons r rs)
  then show ?case
    by (simp add: upsert_Cons key_of_overwrite)
qed

lemma upsert_times_same_clock:
  "upsert_times (replicate m t) k n i c s v (upsert t k n i c s v store)
     = upsert t k n i c s v store"
  by (induction m) (simp_all add: upsert_same_clock)

text \<open>
  C2: on a table that respects the uniqueness of the key, calling the upsert any number of
  times (at least once, at the clock readings \<open>t # rest\<close>) with identical arguments gives the
  table that the first call alone gives, up to the update timestamp that every call sets (and
  exactly that table when the clock reads the same at every call); exactly one row has the
  key, it carries the campaign name and the four metrics of the call and the timestamp of the
  last call; the rows of all other keys are untouched.
\<close>

theorem upsert_idempotent:
  assumes "distinct (map key_of store)"
  shows "map without_updated_at (upsert_times (t # rest) k n i c s v store)
           = map without_updated_at (upsert t k n i c s v store)
         \<and> upsert_times (replicate (Suc m) t) k n i c s v store = upsert t k n i c s v store
         \<and> (\<exists>row. filter (\<lambda>r. key_of r = k) (upsert_times (t # rest) k n i c s v store) = [row]
                 \<and> campaign_name_platform row = n \<and> impressions row = i \<and> clicks row = c
                 \<and> spend row = s \<and> conversions row = v \<and> updated_at row = last (t # rest))
         \<and> filter (\<lambda>r. key_of r \<noteq> k) (upsert_times (t # rest) k n i c s v store)
             = filter (\<lambda>r. key_of r \<noteq> k) store"
proof (intro conjI)
  obtain e where e: "find (\<lambda>r. key_of r = k) (upsert t k n i c s v store) = Some e"
    "campaign_name_platform e = n" "impressions e = i" "clicks e = c" "spend e = s"
    "conversions e = v"
    using upsert_stores_values [of k t n i c s v store] by blast
  from e show "map without_updated_at (upsert_times (t # rest) k n i c s v store)
           = map without_updated_at (upsert t k n i c s v store)"
    by (simp add: upsert_times_again)
  show "upsert_times (replicate (Suc m) t) k n i c s v store = upsert t k n i c s v store"
    by (simp add: upsert_times_same_clock)
  have split: "t # rest = butlast (t # rest) @ [last (t # rest)]"
    by (metis append_butlast_last_id list.distinct(1))
  have "distinct (map key_of (upsert_times (butlast (t # rest)) k n i c s v store))"
    using assms by (rule distinct_keys_upsert_times)
  from upsert_own_key [OF this, of k "last (t # rest)" n i c s v]
  have "\<exists>row. filter (\<lambda>r. key_of r = k)
            (upsert_times (butlast (t # rest) @ [last (t # rest)]) k n i c s v store) = [row]
          \<and> key_of row = k \<and> campaign_name_platform row = n \<and> impressions row = i
          \<and> clicks row = c \<and> spend row = s \<and> conversions row = v
          \<and> updated_at row = last (t # rest)"
    by (simp only: upsert_times_snoc)
  then show "\<exists>row. filter (\<lambda>r. key_of r = k) (upsert_times (t # rest) k n i c s v store) = [row]
                 \<and> campaign_name_platform row = n \<and> impressions row = i \<and> clicks row = c
                 \<and> spend row = s \<and> conversions row = v \<and> updated_at row = last (t # rest)"
    using split by metis
  show "filter (\<lambda>r. key_of r \<noteq> k) (upsert_times (t # rest) k n i c s v store)
             = filter (\<lambda>r. key_of r \<noteq> k) store"
    by (rule upsert_times_frame) simp
qed

theorem upsert_idempotent_witness:
  "map without_updated_at
     (upsert_times [10, 20, 30] (1, GOOGLE_ADS, ''123'', 19000, ''device'', ''mobile'')
        ''Spring Sale'' 1000 40 (25 / 2) 3
        [\<lparr> integration_id = 1, platform = GOOGLE_ADS, campaign_id_platform = ''123'',
           campaign_name_platform = ''Spring'', date = 19000, breakdown_type = ''device'',
           breakdown_value = ''mobile'', impressions = 900, clicks = 30, spend = 10,
           conversions = 2, created_at = 5, updated_at = 5 \<rparr>,
         \<lparr> integration_id = 1, platform = GOOGLE_ADS, campaign_id_platform = ''123'',
           campaign_name_platform = ''Spring'', date = 19000, breakdown_type = ''country'',
           breakdown_value = ''US'', impressions = 900, clicks = 30, spend = 10,
           conversions = 2, created_at = 5, updated_at = 5 \<rparr>])
   = map without_updated_at
     (upsert 10 (1, GOOGLE_ADS, ''123'', 19000, ''device'', ''mobile'')
        ''Spring Sale'' 1000 40 (25 / 2) 3
        [\<lparr> integration_id = 1, platform = GOOGLE_ADS, campaign_id_platform = ''123'',
           campaign_name_platform = ''Spring'', date = 19000, breakdown_type = ''device'',
           breakdown_value = ''mobile'', impressions = 900, clicks = 30, spend = 10,
           conversions = 2, created_at = 5, updated_at = 5 \<rparr>,
         \<lparr> integration_id = 1, platform = GOOGLE_ADS, campaign_id_platform = ''123'',
           campaign_name_platform = ''Spring'', date = 19000, breakdown_type = ''country'',
           breakdown_value = ''US'', impressions = 900, clicks = 30, spend = 10,
           conversions = 2, created_at = 5, updated_at = 5 \<rparr>])
   \<and> upsert_times [10, 20, 30] (1, GOOGLE_ADS, ''123'', 19000, ''device'', ''mobile'')
        ''Spring Sale'' 1000 40 (25 / 2) 3
        [\<lparr> integration_id = 1, platform = GOOGLE_ADS, campaign_id_platform = ''123'',
           campaign_name_platform = ''Spring'', date = 19000, breakdown_type = ''device'',
           breakdown_value = ''mobile'', impressions = 900, clicks = 30, spend = 10,
           conversions = 2, created_at = 5, updated_at = 5 \<rparr>,
         \<lparr> integration_id = 1, platform = GOOGLE_ADS, campaign_id_platform = ''123'',
           campaign_name_platform = ''Spring'', date = 19000, breakdown_type = ''country'',
           breakdown_value = ''US'', impressions = 900, clicks = 30, spend = 10,
           conversions = 2, created_at = 5, updated_at = 5 \<rparr>]
     = [\<lparr> integration_id = 1, platform = GOOGLE_ADS, campaign_id_platform = ''123'',
           campaign_name_platform = ''Spring Sale'', date = 19000, breakdown_type = ''device'',
           breakdown_value = ''mobile'', impressions = 1000, clicks = 40, spend = 25 / 2,
           conversions = 3, created_at = 5, updated_at = 30 \<rparr>,
         \<lparr> integration_id = 1, platform = GOOGLE_ADS, campaign_id_platform = ''123'',
           campaign_name_platform = ''Spring'', date = 19000, breakdown_type = ''country'',
           breakdown_value = ''US'', impressions = 900, clicks = 30, spend = 10,
           conversions = 2, created_at = 5, updated_at = 5 \<rparr>]"
proof -
  let ?store = "[\<lparr> integration_id = 1, platform = GOOGLE_ADS, campaign_id_platform = ''123'',
           campaign_name_platform = ''Spring'', date = 19000, breakdown_type = ''device'',
           breakdown_value = ''mobile'', impressions = 900, clicks = 30, spend = 10,
           conversions = 2, created_at = 5, updated_at = 5 \<rparr>,
         \<lparr> integration_id = 1, platform = GOOGLE_ADS, campaign_id_platform = ''123'',
           campaign_name_platform = ''Spring'', date = 19000, breakdown_type = ''country'',
           breakdown_value = ''US'', impressions = 900, clicks = 30, spend = (10::real),
           conversions = 2, created_at = 5, updated_at = 5 \<rparr>]"
  have d: "distinct (map key_of ?store)"
    by (simp add: key_of_def)
  have ev: "upsert_times [10, 20, 30] (1, GOOGLE_ADS, ''123'', 19000, ''device'', ''mobile'')
        ''Spring Sale'' 1000 40 (25 / 2) 3 ?store
     = [\<lparr> integration_id = 1, platform = GOOGLE_ADS, campaign_id_platform = ''123'',
           campaign_name_platform = ''Spring Sale'', date = 19000, breakdown_type = ''device'',
           breakdown_value = ''mobile'', impressions = 1000, clicks = 40, spend = 25 / 2,
           conversions = 3, created_at = 5, updated_at = 30 \<rparr>,
         \<lparr> integration_id = 1, platform = GOOGLE_ADS, campaign_id_platform = ''123'',
           campaign_name_platform = ''Spring'', date = 19000, breakdown_type = ''country'',
           breakdown_value = ''US'', impressions = 900, clicks = 30, spend = 10,
           conversions = 2, created_at = 5, updated_at = 5 \<rparr>]"
    by (simp add: upsert_Cons key_of_def)
  from upsert_idempotent [OF d, of 10 "[20, 30]" "(1, GOOGLE_ADS, ''123'', 19000, ''device'', ''mobile'')"
      "''Spring Sale''" 1000 40 "25 / 2" 3 0] ev
  show ?thesis by blast
qed

section \<open>Properties of the overall rollup\<close>





subsection \<open>Sequences of writes\<close>





subsection \<open>One recomputation\<close>






subsection \<open>The overall stage\<close>








subsection \<open>Writes followed by the overall stage\<close>


section \<open>Properties of the fetchers\<close>

subsection \<open>Google Ads\<close>









subsection \<open>Meta Ads\<close>











subsection \<open>The rollup invariant after a run\<close>






end
